theory Spec2Isabelle
  imports Main
begin

section \<open>The header \<^verbatim>\<open>gssapi_ext.h\<close>\<close>

text \<open>
  The source is one C header,
  \<^verbatim>\<open>src/java.security.jgss/share/native/libj2gss/gssapi_ext.h\<close>. It holds no function
  body: what it does is decided by the C preprocessor (an include guard, conditional
  groups, one \<^verbatim>\<open>#include\<close>, one \<^verbatim>\<open>#error\<close>, one \<^verbatim>\<open>#define\<close> with a
  value, a \<^verbatim>\<open>#pragma pack\<close> pair) and by the declarations it hands to the compiler.
  The model is therefore the header's lines as data, in the order of the file, and the
  preprocessor as a function that runs them on a translation state.
\<close>

subsection \<open>Macros and controlling expressions\<close>

type_synonym ident = string

text \<open>
  The replacement list of a macro, as far as this header needs it: empty
  (\<^verbatim>\<open>#define _GSSAPI_EXT_H_\<close>), an integer constant (what \<^verbatim>\<open>TargetConditionals.h\<close>
  and the compilers give the macros the conditions read), a cast of an integer constant
  to a named type (\<^verbatim>\<open>((gss_buffer_set_t) 0)\<close>), or any other token sequence, kept as
  text.
\<close>

datatype macro_body =
    Body_empty
  | Body_int int
  | Body_cast ident int
  | Body_tokens string

type_synonym macro_table = "ident \<rightharpoonup> macro_body"

text \<open>
  The controlling expressions of the header's \<^verbatim>\<open>#if\<close> lines use a macro's value,
  \<^verbatim>\<open>defined(X)\<close>, \<^verbatim>\<open>&&\<close> and \<^verbatim>\<open>||\<close>.
\<close>

datatype pp_cond =
    Macro_value ident
  | Defined ident
  | Conj pp_cond pp_cond
  | Disj pp_cond pp_cond

text \<open>
  Evaluation of a controlling expression. An identifier that is not a macro is 0; a macro
  whose replacement is an integer constant is that integer; any other replacement does
  not form an integer constant expression here, and the result is \<open>None\<close>. Both
  operands of \<^verbatim>\<open>&&\<close> and \<^verbatim>\<open>||\<close> must be well formed, whatever the value of the first.
\<close>

fun eval_cond :: "macro_table \<Rightarrow> pp_cond \<Rightarrow> int option" where
  "eval_cond m (Macro_value x) =
     (case m x of
        None \<Rightarrow> Some 0
      | Some (Body_int n) \<Rightarrow> Some n
      | Some _ \<Rightarrow> None)"
| "eval_cond m (Defined x) = Some (if m x = None then 0 else 1)"
| "eval_cond m (Conj a b) =
     (case eval_cond m a of
        None \<Rightarrow> None
      | Some u \<Rightarrow>
          (case eval_cond m b of
             None \<Rightarrow> None
           | Some v \<Rightarrow> Some (if u \<noteq> 0 \<and> v \<noteq> 0 then 1 else 0)))"
| "eval_cond m (Disj a b) =
     (case eval_cond m a of
        None \<Rightarrow> None
      | Some u \<Rightarrow>
          (case eval_cond m b of
             None \<Rightarrow> None
           | Some v \<Rightarrow> Some (if u \<noteq> 0 \<or> v \<noteq> 0 then 1 else 0)))"

subsection \<open>Declarations\<close>

text \<open>
  Types are named as the header names them: \<^verbatim>\<open>size_t\<close>, \<^verbatim>\<open>OM_uint32\<close>,
  \<^verbatim>\<open>gss_buffer_desc\<close>, \<^verbatim>\<open>gss_ctx_id_t\<close> and \<^verbatim>\<open>gss_OID\<close> are declared in other
  headers and appear here by name only.
\<close>

datatype c_type =
    Named ident
  | Struct ident
  | Pointer c_type
  | Const c_type

text \<open>
  A function declarator carries its specifier macros (\<^verbatim>\<open>GSS_DLLIMP\<close>), its result type,
  its name, its parameters (type and the name the header gives in a comment) and its
  body: \<open>None\<close> for a prototype that ends in a semicolon, the text of the compound
  statement for a definition.
\<close>

datatype c_decl =
    Linkage_begin string
  | Linkage_end
  | Typedef_struct ident "(c_type \<times> ident) list" "(ident \<times> c_type) list"
  | Function "ident list" c_type ident "(c_type \<times> ident) list" "string option"

subsection \<open>Lines of a header\<close>

datatype pp_line =
    Ifndef_group ident "pp_line list"
  | Ifdef_group ident "pp_line list"
  | If_group pp_cond "pp_line list"
  | Include_system string
  | Error_directive string
  | Define_macro ident macro_body
  | Pragma_pack_push nat
  | Pragma_pack_pop
  | Declaration c_decl

subsection \<open>The translation state and the preprocessor\<close>

text \<open>
  The state of a translation unit at some line: the macro table, the structure packing
  alignment in force (\<open>None\<close> is the target's default), the stack that
  \<^verbatim>\<open>#pragma pack(push, n)\<close> and \<^verbatim>\<open>#pragma pack(pop)\<close> work on, and the declarations
  handed to the compiler so far.
\<close>

record pp_state =
  macros :: macro_table
  pack_current :: "nat option"
  pack_stack :: "nat option list"
  emitted :: "c_decl list"

datatype pp_error =
    Error_directive_hit string
  | Bad_condition pp_cond

text \<open>
  A system header is not part of the repository. Its effect on the macro table is a
  parameter of the preprocessor: \<open>sys name m\<close> is the table after
  \<^verbatim>\<open>#include <name>\<close> in the table \<open>m\<close>.
\<close>

type_synonym system_headers = "string \<Rightarrow> macro_table \<Rightarrow> macro_table"

text \<open>
  \<^verbatim>\<open>#pragma pack(push, n)\<close> saves the alignment in force on the stack and sets it to
  \<open>n\<close>; \<^verbatim>\<open>#pragma pack(pop)\<close> restores the alignment saved last, and is ignored
  (with a warning) on an empty stack. \<^verbatim>\<open>#error\<close> ends the translation.
\<close>

fun run_line :: "system_headers \<Rightarrow> pp_line \<Rightarrow> pp_state \<Rightarrow> pp_error + pp_state"
  and run_lines :: "system_headers \<Rightarrow> pp_line list \<Rightarrow> pp_state \<Rightarrow> pp_error + pp_state"
where
  "run_line sys (Ifndef_group x body) s =
     (if macros s x = None then run_lines sys body s else Inr s)"
| "run_line sys (Ifdef_group x body) s =
     (if macros s x \<noteq> None then run_lines sys body s else Inr s)"
| "run_line sys (If_group c body) s =
     (case eval_cond (macros s) c of
        None \<Rightarrow> Inl (Bad_condition c)
      | Some v \<Rightarrow> if v \<noteq> 0 then run_lines sys body s else Inr s)"
| "run_line sys (Include_system h) s = Inr (s\<lparr>macros := sys h (macros s)\<rparr>)"
| "run_line sys (Error_directive msg) s = Inl (Error_directive_hit msg)"
| "run_line sys (Define_macro x b) s = Inr (s\<lparr>macros := (macros s)(x \<mapsto> b)\<rparr>)"
| "run_line sys (Pragma_pack_push n) s =
     Inr (s\<lparr>pack_stack := pack_current s # pack_stack s, pack_current := Some n\<rparr>)"
| "run_line sys Pragma_pack_pop s =
     (case pack_stack s of
        [] \<Rightarrow> Inr s
      | a # st \<Rightarrow> Inr (s\<lparr>pack_current := a, pack_stack := st\<rparr>))"
| "run_line sys (Declaration d) s = Inr (s\<lparr>emitted := emitted s @ [d]\<rparr>)"
| "run_lines sys [] s = Inr s"
| "run_lines sys (l # ls) s =
     (case run_line sys l s of
        Inl e \<Rightarrow> Inl e
      | Inr s' \<Rightarrow> run_lines sys ls s')"

subsection \<open>The header, line by line\<close>

text \<open>
  Lines 47 to 50:
  \<^verbatim>\<open>typedef struct gss_buffer_set_desc_struct { size_t count; gss_buffer_desc *elements; }
  gss_buffer_set_desc, *gss_buffer_set_t;\<close>
\<close>

definition gss_buffer_set_desc_struct :: c_decl where
  "gss_buffer_set_desc_struct =
     Typedef_struct ''gss_buffer_set_desc_struct''
       [(Named ''size_t'', ''count''),
        (Pointer (Named ''gss_buffer_desc''), ''elements'')]
       [(''gss_buffer_set_desc'', Struct ''gss_buffer_set_desc_struct''),
        (''gss_buffer_set_t'', Pointer (Struct ''gss_buffer_set_desc_struct''))]"

text \<open>Lines 54 to 56.\<close>

definition gss_release_buffer_set :: c_decl where
  "gss_release_buffer_set =
     Function [''GSS_DLLIMP''] (Named ''OM_uint32'') ''gss_release_buffer_set''
       [(Pointer (Named ''OM_uint32''), ''minor_status''),
        (Pointer (Named ''gss_buffer_set_t''), ''buffer_set'')]
       None"

text \<open>Lines 58 to 63.\<close>

definition gss_inquire_sec_context_by_oid :: c_decl where
  "gss_inquire_sec_context_by_oid =
     Function [''GSS_DLLIMP''] (Named ''OM_uint32'') ''gss_inquire_sec_context_by_oid''
       [(Pointer (Named ''OM_uint32''), ''minor_status''),
        (Const (Named ''gss_ctx_id_t''), ''context_handle''),
        (Const (Named ''gss_OID''), ''desired_object''),
        (Pointer (Named ''gss_buffer_set_t''), ''data_set'')]
       None"

text \<open>
  The whole file. The condition of lines 42 and 65 is written out at both places, as
  the header does.
\<close>

definition gssapi_ext_h :: "pp_line list" where
  "gssapi_ext_h =
     [Ifndef_group ''_GSSAPI_EXT_H_''
        [Define_macro ''_GSSAPI_EXT_H_'' Body_empty,
         If_group (Conj (Defined ''__MACH__'') (Defined ''__APPLE__''))
           [Include_system ''TargetConditionals.h'',
            If_group (Macro_value ''TARGET_RT_MAC_CFM'')
              [Error_directive ''Use KfM 4.0 SDK headers for CFM compilation.'']],
         Ifdef_group ''__cplusplus'' [Declaration (Linkage_begin ''C'')],
         If_group
           (Conj (Macro_value ''TARGET_OS_MAC'')
              (Disj (Disj (Disj (Defined ''__ppc__'') (Defined ''__ppc64__''))
                 (Defined ''__i386__'')) (Defined ''__x86_64__'')))
           [Pragma_pack_push 2],
         Declaration gss_buffer_set_desc_struct,
         Define_macro ''GSS_C_NO_BUFFER_SET'' (Body_cast ''gss_buffer_set_t'' 0),
         Declaration gss_release_buffer_set,
         Declaration gss_inquire_sec_context_by_oid,
         If_group
           (Conj (Macro_value ''TARGET_OS_MAC'')
              (Disj (Disj (Disj (Defined ''__ppc__'') (Defined ''__ppc64__''))
                 (Defined ''__i386__'')) (Defined ''__x86_64__'')))
           [Pragma_pack_pop],
         Ifdef_group ''__cplusplus'' [Declaration Linkage_end]]]"

subsection \<open>Reading declarations\<close>

fun is_function :: "c_decl \<Rightarrow> bool" where
  "is_function (Function specs ret name params body) = True"
| "is_function _ = False"

fun function_name :: "c_decl \<Rightarrow> ident option" where
  "function_name (Function specs ret name params body) = Some name"
| "function_name _ = None"

fun function_body :: "c_decl \<Rightarrow> string option" where
  "function_body (Function specs ret name params body) = body"
| "function_body _ = None"

fun typedef_names :: "c_decl \<Rightarrow> (ident \<times> c_type) list" where
  "typedef_names (Typedef_struct tag members names) = names"
| "typedef_names _ = []"

text \<open>
  Every \<^verbatim>\<open>#define\<close> of a header, in any conditional group, in the order of the
  file.
\<close>

fun defines_in :: "pp_line \<Rightarrow> (ident \<times> macro_body) list" where
  "defines_in (Ifndef_group x body) = concat (map defines_in body)"
| "defines_in (Ifdef_group x body) = concat (map defines_in body)"
| "defines_in (If_group c body) = concat (map defines_in body)"
| "defines_in (Define_macro x b) = [(x, b)]"
| "defines_in _ = []"

subsection \<open>Example configurations\<close>

text \<open>
  Two translation units to run the header on. The first is a macOS build for x86-64:
  the SDK's \<^verbatim>\<open>TargetConditionals.h\<close> sets \<^verbatim>\<open>TARGET_OS_MAC\<close> to 1 and
  \<^verbatim>\<open>TARGET_RT_MAC_CFM\<close> to 0, and the header is reached inside a region that already
  pushed a packing alignment of 4. The second is a C++ build on Linux.
\<close>

definition macos_sdk :: system_headers where
  "macos_sdk h m =
     (if h = ''TargetConditionals.h''
      then m(''TARGET_OS_MAC'' \<mapsto> Body_int 1, ''TARGET_RT_MAC_CFM'' \<mapsto> Body_int 0)
      else m)"

definition macos_x86_64 :: pp_state where
  "macos_x86_64 =
     \<lparr>macros = [''__MACH__'' \<mapsto> Body_int 1, ''__APPLE__'' \<mapsto> Body_int 1,
                ''__x86_64__'' \<mapsto> Body_int 1],
      pack_current = Some 4, pack_stack = [None], emitted = []\<rparr>"

definition linux_cplusplus :: pp_state where
  "linux_cplusplus =
     \<lparr>macros = [''__linux__'' \<mapsto> Body_int 1, ''__x86_64__'' \<mapsto> Body_int 1,
                ''__cplusplus'' \<mapsto> Body_tokens ''201703L''],
      pack_current = None, pack_stack = [], emitted = []\<rparr>"

section \<open>Running the header\<close>

subsection \<open>Sequences of lines\<close>

lemma run_lines_append:
  "run_lines sys (xs @ ys) s =
     (case run_lines sys xs s of Inl e \<Rightarrow> Inl e | Inr t \<Rightarrow> run_lines sys ys t)"
  by (induction xs arbitrary: s) (auto split: sum.splits)

lemma run_lines_appendD:
  "run_lines sys (xs @ ys) s = Inr s' \<Longrightarrow>
     \<exists>t. run_lines sys xs s = Inr t \<and> run_lines sys ys t = Inr s'"
  by (simp add: run_lines_append split: sum.splits)

lemma run_guard_open:
  "macros s x = None \<Longrightarrow> run_lines sys [Ifndef_group x body] s = run_lines sys body s"
  by (simp split: sum.splits)

lemma run_guard_closed:
  "macros s x \<noteq> None \<Longrightarrow> run_lines sys [Ifndef_group x body] s = Inr s"
  by auto

subsection \<open>The header in five stages\<close>

text \<open>
  Lines 27 to 38 (guard macro, the Apple block, the opening of the linkage block); the
  push of line 43; lines 47 to 63 (the structure, the macro, the two prototypes); the
  pop of line 66; line 70.
\<close>

lemma stage_prologue:
  assumes "run_lines sys
       [Define_macro ''_GSSAPI_EXT_H_'' Body_empty,
         If_group (Conj (Defined ''__MACH__'') (Defined ''__APPLE__''))
           [Include_system ''TargetConditionals.h'',
            If_group (Macro_value ''TARGET_RT_MAC_CFM'')
              [Error_directive ''Use KfM 4.0 SDK headers for CFM compilation.'']],
         Ifdef_group ''__cplusplus'' [Declaration (Linkage_begin ''C'')]] s = Inr t"
  shows "pack_current t = pack_current s \<and> pack_stack t = pack_stack s \<and>
     emitted t = emitted s @
       (if macros t ''__cplusplus'' \<noteq> None then [Linkage_begin ''C''] else [])"
  using assms
  by (auto split: if_splits option.splits macro_body.splits)

lemma stage_push:
  assumes "run_lines sys [If_group c [Pragma_pack_push n]] t = Inr u"
  shows "\<exists>v. eval_cond (macros t) c = Some v \<and>
     u = (if v \<noteq> 0
          then t\<lparr>pack_stack := pack_current t # pack_stack t, pack_current := Some n\<rparr>
          else t)"
  using assms by (auto split: option.splits if_splits)

lemma stage_mid:
  "run_lines sys [Declaration d1, Define_macro x b, Declaration d2, Declaration d3] u =
     Inr (u\<lparr>macros := (macros u)(x \<mapsto> b), emitted := emitted u @ [d1, d2, d3]\<rparr>)"
  by simp

lemma stage_pop:
  assumes "run_lines sys [If_group c [Pragma_pack_pop]] w = Inr z"
  shows "\<exists>v. eval_cond (macros w) c = Some v \<and>
     z = (if v \<noteq> 0 then
            (case pack_stack w of
               [] \<Rightarrow> w
             | a # st \<Rightarrow> w\<lparr>pack_current := a, pack_stack := st\<rparr>)
          else w)"
  using assms by (auto split: option.splits if_splits list.splits)

lemma stage_epilogue:
  "run_lines sys [Ifdef_group x [Declaration d]] z =
     Inr (if macros z x \<noteq> None then z\<lparr>emitted := emitted z @ [d]\<rparr> else z)"
  by simp

text \<open>
  The one macro defined between line 42 and line 65 is not read by their condition.
\<close>

lemma pack_condition_stable:
  "eval_cond (m(''GSS_C_NO_BUFFER_SET'' \<mapsto> b))
     (Conj (Macro_value ''TARGET_OS_MAC'')
        (Disj (Disj (Disj (Defined ''__ppc__'') (Defined ''__ppc64__''))
           (Defined ''__i386__'')) (Defined ''__x86_64__''))) =
   eval_cond m
     (Conj (Macro_value ''TARGET_OS_MAC'')
        (Disj (Disj (Disj (Defined ''__ppc__'') (Defined ''__ppc64__''))
           (Defined ''__i386__'')) (Defined ''__x86_64__'')))"
  by (simp split: option.splits macro_body.splits)

subsection \<open>What one inclusion does\<close>

lemma header_skipped:
  "macros s ''_GSSAPI_EXT_H_'' \<noteq> None \<Longrightarrow> run_lines sys gssapi_ext_h s = Inr s"
  unfolding gssapi_ext_h_def by (rule run_guard_closed)

lemma header_effect:
  assumes guard: "macros s ''_GSSAPI_EXT_H_'' = None"
    and run: "run_lines sys gssapi_ext_h s = Inr s'"
  shows "pack_current s' = pack_current s \<and> pack_stack s' = pack_stack s \<and>
     macros s' ''GSS_C_NO_BUFFER_SET'' = Some (Body_cast ''gss_buffer_set_t'' 0) \<and>
     emitted s' = emitted s @
        (if macros s' ''__cplusplus'' \<noteq> None then [Linkage_begin ''C''] else []) @
        [gss_buffer_set_desc_struct, gss_release_buffer_set, gss_inquire_sec_context_by_oid] @
        (if macros s' ''__cplusplus'' \<noteq> None then [Linkage_end] else [])"
proof -
  let ?c = "Conj (Macro_value ''TARGET_OS_MAC'')
        (Disj (Disj (Disj (Defined ''__ppc__'') (Defined ''__ppc64__''))
           (Defined ''__i386__'')) (Defined ''__x86_64__''))"
  let ?pro = "[Define_macro ''_GSSAPI_EXT_H_'' Body_empty,
         If_group (Conj (Defined ''__MACH__'') (Defined ''__APPLE__''))
           [Include_system ''TargetConditionals.h'',
            If_group (Macro_value ''TARGET_RT_MAC_CFM'')
              [Error_directive ''Use KfM 4.0 SDK headers for CFM compilation.'']],
         Ifdef_group ''__cplusplus'' [Declaration (Linkage_begin ''C'')]]"
  let ?mid = "[Declaration gss_buffer_set_desc_struct,
         Define_macro ''GSS_C_NO_BUFFER_SET'' (Body_cast ''gss_buffer_set_t'' 0),
         Declaration gss_release_buffer_set,
         Declaration gss_inquire_sec_context_by_oid]"
  let ?push = "[If_group ?c [Pragma_pack_push 2]]"
  let ?pop = "[If_group ?c [Pragma_pack_pop]]"
  let ?epi = "[Ifdef_group ''__cplusplus'' [Declaration Linkage_end]]"
  let ?decls = "[gss_buffer_set_desc_struct, gss_release_buffer_set,
         gss_inquire_sec_context_by_oid]"
  have hdr: "gssapi_ext_h =
      [Ifndef_group ''_GSSAPI_EXT_H_'' (?pro @ ?push @ ?mid @ ?pop @ ?epi)]"
    by (simp add: gssapi_ext_h_def)
  from run have body: "run_lines sys (?pro @ ?push @ ?mid @ ?pop @ ?epi) s = Inr s'"
    unfolding hdr run_guard_open [OF guard] .
  from run_lines_appendD [OF body] obtain t where t: "run_lines sys ?pro s = Inr t"
    and r1: "run_lines sys (?push @ ?mid @ ?pop @ ?epi) t = Inr s'"
    by blast
  from run_lines_appendD [OF r1] obtain u where u: "run_lines sys ?push t = Inr u"
    and r2: "run_lines sys (?mid @ ?pop @ ?epi) u = Inr s'"
    by blast
  from run_lines_appendD [OF r2] obtain w where w: "run_lines sys ?mid u = Inr w"
    and r3: "run_lines sys (?pop @ ?epi) w = Inr s'"
    by blast
  from run_lines_appendD [OF r3] obtain z where z: "run_lines sys ?pop w = Inr z"
    and r4: "run_lines sys ?epi z = Inr s'"
    by blast
  note t_eq = stage_prologue [OF t]
  from stage_push [OF u] obtain v where v: "eval_cond (macros t) ?c = Some v"
    and u_eq: "u = (if v \<noteq> 0
        then t\<lparr>pack_stack := pack_current t # pack_stack t, pack_current := Some 2\<rparr>
        else t)"
    by blast
  from w have w_eq: "w = u\<lparr>macros :=
        (macros u)(''GSS_C_NO_BUFFER_SET'' \<mapsto> Body_cast ''gss_buffer_set_t'' 0),
      emitted := emitted u @ ?decls\<rparr>"
    unfolding stage_mid by simp
  have mu: "macros u = macros t"
    using u_eq by simp
  have mw: "macros w =
      (macros t)(''GSS_C_NO_BUFFER_SET'' \<mapsto> Body_cast ''gss_buffer_set_t'' 0)"
    using w_eq mu by simp
  have cw: "eval_cond (macros w) ?c = Some v"
    unfolding mw pack_condition_stable by (rule v)
  from stage_pop [OF z] cw have
    z_eq: "z = (if v \<noteq> 0 then
            (case pack_stack w of
               [] \<Rightarrow> w
             | a # st \<Rightarrow> w\<lparr>pack_current := a, pack_stack := st\<rparr>)
          else w)"
    by auto
  from r4 have s'_eq: "s' =
      (if macros z ''__cplusplus'' \<noteq> None then z\<lparr>emitted := emitted z @ [Linkage_end]\<rparr>
       else z)"
    unfolding stage_epilogue by simp
  have pz: "pack_current z = pack_current t \<and> pack_stack z = pack_stack t \<and>
      macros z = macros w \<and> emitted z = emitted w"
    unfolding z_eq w_eq u_eq by (cases "v = 0") simp_all
  have ew: "emitted w = emitted t @ ?decls"
    unfolding w_eq u_eq by simp
  have ms': "macros s' = macros w"
    unfolding s'_eq using pz by simp
  have cpp: "macros s' ''__cplusplus'' = macros t ''__cplusplus''"
    unfolding ms' mw by simp
  have p1: "pack_current s' = pack_current s \<and> pack_stack s' = pack_stack s"
    unfolding s'_eq using pz t_eq by simp
  have p2: "macros s' ''GSS_C_NO_BUFFER_SET'' = Some (Body_cast ''gss_buffer_set_t'' 0)"
    unfolding ms' mw by simp
  have p3: "emitted s' = emitted z @
      (if macros s' ''__cplusplus'' \<noteq> None then [Linkage_end] else [])"
    using ms' pz unfolding s'_eq by simp
  have p4: "emitted z = emitted s @
      (if macros s' ''__cplusplus'' \<noteq> None then [Linkage_begin ''C''] else []) @ ?decls"
    using pz ew t_eq cpp by simp
  show ?thesis
    using p1 p2 p3 p4 by simp
qed

lemma header_declarations:
  assumes guard: "macros s ''_GSSAPI_EXT_H_'' = None"
    and run: "run_lines sys gssapi_ext_h s = Inr s'"
  shows "\<exists>new. emitted s' = emitted s @ new \<and>
     filter is_function new = [gss_release_buffer_set, gss_inquire_sec_context_by_oid] \<and>
     gss_buffer_set_desc_struct \<in> set new \<and>
     (\<forall>d \<in> set new. function_body d = None)"
proof -
  let ?new = "(if macros s' ''__cplusplus'' \<noteq> None then [Linkage_begin ''C''] else []) @
        [gss_buffer_set_desc_struct, gss_release_buffer_set, gss_inquire_sec_context_by_oid] @
        (if macros s' ''__cplusplus'' \<noteq> None then [Linkage_end] else [])"
  from header_effect [OF guard run] have e: "emitted s' = emitted s @ ?new"
    by blast
  have f: "filter is_function ?new = [gss_release_buffer_set, gss_inquire_sec_context_by_oid]"
    by (simp add: gss_buffer_set_desc_struct_def gss_release_buffer_set_def
        gss_inquire_sec_context_by_oid_def)
  have m: "gss_buffer_set_desc_struct \<in> set ?new"
    by simp
  have b: "\<forall>d \<in> set ?new. function_body d = None"
    by (auto simp: gss_buffer_set_desc_struct_def gss_release_buffer_set_def
        gss_inquire_sec_context_by_oid_def)
  from e f m b show ?thesis
    by (intro exI [of _ ?new] conjI)
qed

lemma defines_in_header:
  "concat (map defines_in gssapi_ext_h) =
     [(''_GSSAPI_EXT_H_'', Body_empty),
      (''GSS_C_NO_BUFFER_SET'', Body_cast ''gss_buffer_set_t'' 0)]"
  by (simp add: gssapi_ext_h_def)

subsection \<open>When the header is accepted\<close>

lemma pack_condition_defined:
  assumes "eval_cond m (Macro_value x) = Some v"
  shows "\<exists>v'. eval_cond m
     (Conj (Macro_value x)
        (Disj (Disj (Disj (Defined a) (Defined b)) (Defined c)) (Defined d))) = Some v'"
  using assms by (simp split: option.splits macro_body.splits)

lemma push_accepted:
  assumes "eval_cond (macros t) c = Some v"
  shows "\<exists>u. run_lines sys [If_group c [Pragma_pack_push n]] t = Inr u \<and> macros u = macros t"
  using assms by simp

lemma pop_accepted:
  assumes "eval_cond (macros w) c = Some v"
  shows "\<exists>z. run_lines sys [If_group c [Pragma_pack_pop]] w = Inr z"
  using assms by (simp split: list.splits)

lemma prologue_off_apple:
  assumes "macros s ''__MACH__'' = None \<or> macros s ''__APPLE__'' = None"
  shows "\<exists>t. run_lines sys
       [Define_macro ''_GSSAPI_EXT_H_'' Body_empty,
         If_group (Conj (Defined ''__MACH__'') (Defined ''__APPLE__''))
           [Include_system ''TargetConditionals.h'',
            If_group (Macro_value ''TARGET_RT_MAC_CFM'')
              [Error_directive ''Use KfM 4.0 SDK headers for CFM compilation.'']],
         Ifdef_group ''__cplusplus'' [Declaration (Linkage_begin ''C'')]] s = Inr t \<and>
       macros t = (macros s)(''_GSSAPI_EXT_H_'' \<mapsto> Body_empty)"
  using assms by auto

lemma prologue_on_apple:
  assumes "macros s ''__MACH__'' \<noteq> None" and "macros s ''__APPLE__'' \<noteq> None"
    and "eval_cond
           (sys ''TargetConditionals.h'' ((macros s)(''_GSSAPI_EXT_H_'' \<mapsto> Body_empty)))
           (Macro_value ''TARGET_RT_MAC_CFM'') = Some 0"
  shows "\<exists>t. run_lines sys
       [Define_macro ''_GSSAPI_EXT_H_'' Body_empty,
         If_group (Conj (Defined ''__MACH__'') (Defined ''__APPLE__''))
           [Include_system ''TargetConditionals.h'',
            If_group (Macro_value ''TARGET_RT_MAC_CFM'')
              [Error_directive ''Use KfM 4.0 SDK headers for CFM compilation.'']],
         Ifdef_group ''__cplusplus'' [Declaration (Linkage_begin ''C'')]] s = Inr t \<and>
       macros t =
         sys ''TargetConditionals.h'' ((macros s)(''_GSSAPI_EXT_H_'' \<mapsto> Body_empty))"
  using assms by (auto split: option.splits macro_body.splits)

lemma body_accepted:
  assumes guard: "macros s ''_GSSAPI_EXT_H_'' = None"
    and t: "run_lines sys
       [Define_macro ''_GSSAPI_EXT_H_'' Body_empty,
         If_group (Conj (Defined ''__MACH__'') (Defined ''__APPLE__''))
           [Include_system ''TargetConditionals.h'',
            If_group (Macro_value ''TARGET_RT_MAC_CFM'')
              [Error_directive ''Use KfM 4.0 SDK headers for CFM compilation.'']],
         Ifdef_group ''__cplusplus'' [Declaration (Linkage_begin ''C'')]] s = Inr t"
    and v: "eval_cond (macros t) (Macro_value ''TARGET_OS_MAC'') = Some v"
  shows "\<exists>s'. run_lines sys gssapi_ext_h s = Inr s'"
proof -
  let ?c = "Conj (Macro_value ''TARGET_OS_MAC'')
        (Disj (Disj (Disj (Defined ''__ppc__'') (Defined ''__ppc64__''))
           (Defined ''__i386__'')) (Defined ''__x86_64__''))"
  let ?pro = "[Define_macro ''_GSSAPI_EXT_H_'' Body_empty,
         If_group (Conj (Defined ''__MACH__'') (Defined ''__APPLE__''))
           [Include_system ''TargetConditionals.h'',
            If_group (Macro_value ''TARGET_RT_MAC_CFM'')
              [Error_directive ''Use KfM 4.0 SDK headers for CFM compilation.'']],
         Ifdef_group ''__cplusplus'' [Declaration (Linkage_begin ''C'')]]"
  let ?mid = "[Declaration gss_buffer_set_desc_struct,
         Define_macro ''GSS_C_NO_BUFFER_SET'' (Body_cast ''gss_buffer_set_t'' 0),
         Declaration gss_release_buffer_set,
         Declaration gss_inquire_sec_context_by_oid]"
  let ?push = "[If_group ?c [Pragma_pack_push 2]]"
  let ?pop = "[If_group ?c [Pragma_pack_pop]]"
  let ?epi = "[Ifdef_group ''__cplusplus'' [Declaration Linkage_end]]"
  have hdr: "gssapi_ext_h =
      [Ifndef_group ''_GSSAPI_EXT_H_'' (?pro @ ?push @ ?mid @ ?pop @ ?epi)]"
    by (simp add: gssapi_ext_h_def)
  from pack_condition_defined [OF v] obtain v' where c: "eval_cond (macros t) ?c = Some v'"
    by blast
  from push_accepted [OF c] obtain u where u: "run_lines sys ?push t = Inr u"
    and mu: "macros u = macros t"
    by blast
  define w where "w = u\<lparr>macros :=
        (macros u)(''GSS_C_NO_BUFFER_SET'' \<mapsto> Body_cast ''gss_buffer_set_t'' 0),
      emitted := emitted u @ [gss_buffer_set_desc_struct, gss_release_buffer_set,
        gss_inquire_sec_context_by_oid]\<rparr>"
  have w: "run_lines sys ?mid u = Inr w"
    unfolding w_def by (rule stage_mid)
  have "eval_cond (macros w) ?c = Some v'"
    unfolding w_def using c mu pack_condition_stable [of "macros t"] by simp
  from pop_accepted [OF this] obtain z where z: "run_lines sys ?pop w = Inr z"
    by blast
  have "run_lines sys (?pro @ ?push @ ?mid @ ?pop @ ?epi) s = run_lines sys ?epi z"
    by (simp only: run_lines_append t u w z sum.case)
  then have "\<exists>s'. run_lines sys (?pro @ ?push @ ?mid @ ?pop @ ?epi) s = Inr s'"
    by (simp only: stage_epilogue) blast
  then show ?thesis
    unfolding hdr run_guard_open [OF guard] .
qed

text \<open>
  Off Apple's Mach targets the header is accepted whenever \<^verbatim>\<open>TARGET_OS_MAC\<close> is not
  a macro or is an integer.
\<close>

lemma include_accepted_off_apple:
  assumes "macros s ''_GSSAPI_EXT_H_'' = None"
    and "macros s ''__MACH__'' = None \<or> macros s ''__APPLE__'' = None"
    and "eval_cond (macros s) (Macro_value ''TARGET_OS_MAC'') = Some v"
  shows "\<exists>s'. run_lines sys gssapi_ext_h s = Inr s'"
proof -
  from prologue_off_apple [OF assms(2)] obtain t where t: "run_lines sys
       [Define_macro ''_GSSAPI_EXT_H_'' Body_empty,
         If_group (Conj (Defined ''__MACH__'') (Defined ''__APPLE__''))
           [Include_system ''TargetConditionals.h'',
            If_group (Macro_value ''TARGET_RT_MAC_CFM'')
              [Error_directive ''Use KfM 4.0 SDK headers for CFM compilation.'']],
         Ifdef_group ''__cplusplus'' [Declaration (Linkage_begin ''C'')]] s = Inr t"
    and m: "macros t = (macros s)(''_GSSAPI_EXT_H_'' \<mapsto> Body_empty)"
    by blast
  have "eval_cond (macros t) (Macro_value ''TARGET_OS_MAC'') = Some v"
    unfolding m using assms(3) by simp
  from body_accepted [OF assms(1) t this] show ?thesis .
qed

text \<open>
  On Apple's Mach targets it is accepted when, after \<^verbatim>\<open>TargetConditionals.h\<close>,
  \<^verbatim>\<open>TARGET_RT_MAC_CFM\<close> is 0 and \<^verbatim>\<open>TARGET_OS_MAC\<close> is an integer.
\<close>

lemma include_accepted_on_apple:
  assumes "macros s ''_GSSAPI_EXT_H_'' = None"
    and "macros s ''__MACH__'' \<noteq> None" and "macros s ''__APPLE__'' \<noteq> None"
    and "eval_cond
           (sys ''TargetConditionals.h'' ((macros s)(''_GSSAPI_EXT_H_'' \<mapsto> Body_empty)))
           (Macro_value ''TARGET_RT_MAC_CFM'') = Some 0"
    and "eval_cond
           (sys ''TargetConditionals.h'' ((macros s)(''_GSSAPI_EXT_H_'' \<mapsto> Body_empty)))
           (Macro_value ''TARGET_OS_MAC'') = Some v"
  shows "\<exists>s'. run_lines sys gssapi_ext_h s = Inr s'"
proof -
  from prologue_on_apple [where s = s and sys = sys, OF assms(2,3,4)]
  obtain t where t: "run_lines sys
       [Define_macro ''_GSSAPI_EXT_H_'' Body_empty,
         If_group (Conj (Defined ''__MACH__'') (Defined ''__APPLE__''))
           [Include_system ''TargetConditionals.h'',
            If_group (Macro_value ''TARGET_RT_MAC_CFM'')
              [Error_directive ''Use KfM 4.0 SDK headers for CFM compilation.'']],
         Ifdef_group ''__cplusplus'' [Declaration (Linkage_begin ''C'')]] s = Inr t"
    and m: "macros t =
      sys ''TargetConditionals.h'' ((macros s)(''_GSSAPI_EXT_H_'' \<mapsto> Body_empty))"
    by blast
  have "eval_cond (macros t) (Macro_value ''TARGET_OS_MAC'') = Some v"
    unfolding m using assms(5) by simp
  from body_accepted [OF assms(1) t this] show ?thesis .
qed

lemma macos_x86_64_accepted:
  "\<exists>s'. run_lines macos_sdk gssapi_ext_h macos_x86_64 = Inr s'"
  by (rule include_accepted_on_apple [where v = 1])
    (simp_all add: macos_sdk_def macos_x86_64_def)

lemma linux_cplusplus_accepted:
  "\<exists>s'. run_lines sys gssapi_ext_h linux_cplusplus = Inr s'"
  by (rule include_accepted_off_apple [where v = 0])
    (simp_all add: linux_cplusplus_def)

subsection \<open>The structure's place in the header\<close>

text \<open>
  The condition of line 42 holds when \<^verbatim>\<open>TARGET_OS_MAC\<close> is a non-zero integer and
  one of the four architecture macros is defined; the push of line 43 then runs. The
  structure is declared once, directly after that push.
\<close>

lemma pack_condition_holds:
  assumes "eval_cond m (Macro_value x) = Some v" and "v \<noteq> 0"
    and "m a \<noteq> None \<or> m b \<noteq> None \<or> m c \<noteq> None \<or> m d \<noteq> None"
  shows "eval_cond m
     (Conj (Macro_value x)
        (Disj (Disj (Disj (Defined a) (Defined b)) (Defined c)) (Defined d))) = Some 1"
  using assms by (auto split: option.splits macro_body.splits)

lemma push_taken:
  assumes "eval_cond (macros t) c = Some v" and "v \<noteq> 0"
  shows "run_lines sys [If_group c [Pragma_pack_push n]] t =
     Inr (t\<lparr>pack_stack := pack_current t # pack_stack t, pack_current := Some n\<rparr>)"
  using assms by simp

lemma struct_declared_once:
  assumes "gssapi_ext_h =
     [Ifndef_group ''_GSSAPI_EXT_H_'' (pre @ Declaration gss_buffer_set_desc_struct # post)]"
  shows "pre =
     [Define_macro ''_GSSAPI_EXT_H_'' Body_empty,
      If_group (Conj (Defined ''__MACH__'') (Defined ''__APPLE__''))
        [Include_system ''TargetConditionals.h'',
         If_group (Macro_value ''TARGET_RT_MAC_CFM'')
           [Error_directive ''Use KfM 4.0 SDK headers for CFM compilation.'']],
      Ifdef_group ''__cplusplus'' [Declaration (Linkage_begin ''C'')],
      If_group
        (Conj (Macro_value ''TARGET_OS_MAC'')
           (Disj (Disj (Disj (Defined ''__ppc__'') (Defined ''__ppc64__''))
              (Defined ''__i386__'')) (Defined ''__x86_64__'')))
        [Pragma_pack_push 2]]"
proof -
  let ?pre = "[Define_macro ''_GSSAPI_EXT_H_'' Body_empty,
      If_group (Conj (Defined ''__MACH__'') (Defined ''__APPLE__''))
        [Include_system ''TargetConditionals.h'',
         If_group (Macro_value ''TARGET_RT_MAC_CFM'')
           [Error_directive ''Use KfM 4.0 SDK headers for CFM compilation.'']],
      Ifdef_group ''__cplusplus'' [Declaration (Linkage_begin ''C'')],
      If_group
        (Conj (Macro_value ''TARGET_OS_MAC'')
           (Disj (Disj (Disj (Defined ''__ppc__'') (Defined ''__ppc64__''))
              (Defined ''__i386__'')) (Defined ''__x86_64__'')))
        [Pragma_pack_push 2]]"
  let ?post = "[Define_macro ''GSS_C_NO_BUFFER_SET'' (Body_cast ''gss_buffer_set_t'' 0),
      Declaration gss_release_buffer_set,
      Declaration gss_inquire_sec_context_by_oid,
      If_group
        (Conj (Macro_value ''TARGET_OS_MAC'')
           (Disj (Disj (Disj (Defined ''__ppc__'') (Defined ''__ppc64__''))
              (Defined ''__i386__'')) (Defined ''__x86_64__'')))
        [Pragma_pack_pop],
      Ifdef_group ''__cplusplus'' [Declaration Linkage_end]]"
  let ?d = "Declaration gss_buffer_set_desc_struct"
  have e: "pre @ ?d # post = ?pre @ ?d # ?post"
    using assms by (simp add: gssapi_ext_h_def)
  have "distinct (?pre @ ?d # ?post)"
    by (simp add: gss_buffer_set_desc_struct_def gss_release_buffer_set_def
        gss_inquire_sec_context_by_oid_def)
  then have "distinct (pre @ ?d # post)"
    unfolding e .
  then have a: "?d \<notin> set pre" and b: "?d \<notin> set post"
    by simp_all
  from append_Cons_eq_iff [OF a b, THEN iffD1, OF e] show ?thesis ..
qed

subsection \<open>When the header is rejected\<close>

lemma run_lines_rejected:
  "run_lines sys xs s = Inl e \<Longrightarrow> run_lines sys (xs @ ys) s = Inl e"
  by (simp add: run_lines_append)

text \<open>
  The \<^verbatim>\<open>#error\<close> of line 32: an Apple Mach target whose
  \<^verbatim>\<open>TARGET_RT_MAC_CFM\<close> is not 0.
\<close>

lemma include_rejected_for_cfm:
  assumes guard: "macros s ''_GSSAPI_EXT_H_'' = None"
    and "macros s ''__MACH__'' \<noteq> None" and "macros s ''__APPLE__'' \<noteq> None"
    and "eval_cond
           (sys ''TargetConditionals.h'' ((macros s)(''_GSSAPI_EXT_H_'' \<mapsto> Body_empty)))
           (Macro_value ''TARGET_RT_MAC_CFM'') = Some v"
    and "v \<noteq> 0"
  shows "run_lines sys gssapi_ext_h s =
     Inl (Error_directive_hit ''Use KfM 4.0 SDK headers for CFM compilation.'')"
proof -
  let ?pro = "[Define_macro ''_GSSAPI_EXT_H_'' Body_empty,
         If_group (Conj (Defined ''__MACH__'') (Defined ''__APPLE__''))
           [Include_system ''TargetConditionals.h'',
            If_group (Macro_value ''TARGET_RT_MAC_CFM'')
              [Error_directive ''Use KfM 4.0 SDK headers for CFM compilation.'']]]"
  have "\<exists>rest. gssapi_ext_h = [Ifndef_group ''_GSSAPI_EXT_H_'' (?pro @ rest)]"
    by (simp add: gssapi_ext_h_def)
  then obtain rest where h: "gssapi_ext_h = [Ifndef_group ''_GSSAPI_EXT_H_'' (?pro @ rest)]"
    by blast
  have "run_lines sys ?pro s =
     Inl (Error_directive_hit ''Use KfM 4.0 SDK headers for CFM compilation.'')"
    using assms(2-5) by (auto split: option.splits macro_body.splits)
  from run_lines_rejected [OF this] show ?thesis
    unfolding h run_guard_open [OF guard] .
qed

section \<open>Properties of the header\<close>

text \<open>
  C10. The packing directive is applied symmetrically: \<^verbatim>\<open>pack(push,2)\<close> on line 43
  and \<^verbatim>\<open>pack(pop)\<close> on line 66 stand under the same condition, and nothing between
  them changes a macro that the condition reads. So whenever the header is accepted,
  in any macro table, with any system headers and from any packing state, the packing
  alignment in force and the packing stack after the inclusion are those before it.
  This covers a second inclusion too, which the guard skips.
\<close>

theorem include_preserves_packing:
  assumes run: "run_lines sys gssapi_ext_h s = Inr s'"
  shows "pack_current s' = pack_current s \<and> pack_stack s' = pack_stack s"
proof (cases "macros s ''_GSSAPI_EXT_H_'' = None")
  case True
  from header_effect [OF True run] show ?thesis
    by blast
next
  case False
  from header_skipped [OF False, of sys] run have "s' = s"
    by simp
  then show ?thesis
    by simp
qed

text \<open>
  On the macOS build the condition holds, so the push and the pop both run: the
  alignment 4 and the stack found at the start are back at the end.
\<close>

theorem include_preserves_packing_witness:
  "\<exists>s'. run_lines macos_sdk gssapi_ext_h macos_x86_64 = Inr s' \<and>
     pack_current s' = Some 4 \<and> pack_stack s' = [None]"
proof -
  from macos_x86_64_accepted obtain s' where
    r: "run_lines macos_sdk gssapi_ext_h macos_x86_64 = Inr s'"
    by blast
  from include_preserves_packing [OF r] have
    "pack_current s' = Some 4 \<and> pack_stack s' = [None]"
    by (simp add: macos_x86_64_def)
  with r show ?thesis
    by blast
qed

text \<open>
  C7. On the targets where the packing directive applies, the structure is declared
  under a packing alignment of 2. Take a macOS build: \<^verbatim>\<open>__MACH__\<close> and
  \<^verbatim>\<open>__APPLE__\<close> are defined and, in the table \<open>m\<close> that
  \<^verbatim>\<open>TargetConditionals.h\<close> leaves, \<^verbatim>\<open>TARGET_RT_MAC_CFM\<close> is 0,
  \<^verbatim>\<open>TARGET_OS_MAC\<close> is not 0 and one of \<^verbatim>\<open>__ppc__\<close>, \<^verbatim>\<open>__ppc64__\<close>,
  \<^verbatim>\<open>__i386__\<close>, \<^verbatim>\<open>__x86_64__\<close> is defined. Then the lines that precede the
  declaration of \<^verbatim>\<open>gss_buffer_set_desc_struct\<close> are accepted, the inclusion goes on
  from the state \<open>t\<close> they reach with that declaration, and in \<open>t\<close> the packing
  alignment in force is 2, with the alignment found at the start saved on the stack.
  What bytes a compiler lays out from that alignment, and the interface of the
  platform's library they are to match, are not in the header.
\<close>

theorem struct_declared_under_pack_2:
  assumes split: "gssapi_ext_h =
       [Ifndef_group ''_GSSAPI_EXT_H_''
          (pre @ Declaration gss_buffer_set_desc_struct # post)]"
    and guard: "macros s ''_GSSAPI_EXT_H_'' = None"
    and mach: "macros s ''__MACH__'' \<noteq> None"
    and apple: "macros s ''__APPLE__'' \<noteq> None"
    and m: "m = sys ''TargetConditionals.h'' ((macros s)(''_GSSAPI_EXT_H_'' \<mapsto> Body_empty))"
    and cfm: "eval_cond m (Macro_value ''TARGET_RT_MAC_CFM'') = Some 0"
    and mac: "eval_cond m (Macro_value ''TARGET_OS_MAC'') = Some v"
    and nonzero: "v \<noteq> 0"
    and arch: "m ''__ppc__'' \<noteq> None \<or> m ''__ppc64__'' \<noteq> None \<or>
       m ''__i386__'' \<noteq> None \<or> m ''__x86_64__'' \<noteq> None"
  shows "\<exists>t. run_lines sys pre s = Inr t \<and>
     run_lines sys gssapi_ext_h s =
       run_lines sys (Declaration gss_buffer_set_desc_struct # post) t \<and>
     pack_current t = Some 2 \<and> pack_stack t = pack_current s # pack_stack s"
proof -
  let ?c = "Conj (Macro_value ''TARGET_OS_MAC'')
        (Disj (Disj (Disj (Defined ''__ppc__'') (Defined ''__ppc64__''))
           (Defined ''__i386__'')) (Defined ''__x86_64__''))"
  let ?pro = "[Define_macro ''_GSSAPI_EXT_H_'' Body_empty,
         If_group (Conj (Defined ''__MACH__'') (Defined ''__APPLE__''))
           [Include_system ''TargetConditionals.h'',
            If_group (Macro_value ''TARGET_RT_MAC_CFM'')
              [Error_directive ''Use KfM 4.0 SDK headers for CFM compilation.'']],
         Ifdef_group ''__cplusplus'' [Declaration (Linkage_begin ''C'')]]"
  let ?push = "[If_group ?c [Pragma_pack_push 2]]"
  have pre: "pre = ?pro @ ?push"
    using struct_declared_once [OF split] by simp
  from prologue_on_apple [where s = s and sys = sys, OF mach apple cfm [unfolded m]]
  obtain t1 where t1: "run_lines sys ?pro s = Inr t1" and m1: "macros t1 = m"
    unfolding m by blast
  note frame = stage_prologue [OF t1]
  have c: "eval_cond (macros t1) ?c = Some 1"
    unfolding m1 by (rule pack_condition_holds [OF mac nonzero arch])
  define t where "t = t1\<lparr>pack_stack := pack_current t1 # pack_stack t1, pack_current := Some 2\<rparr>"
  have push: "run_lines sys ?push t1 = Inr t"
    unfolding t_def by (rule push_taken [OF c]) simp
  have r: "run_lines sys pre s = Inr t"
    unfolding pre by (simp only: run_lines_append t1 push sum.case)
  have whole: "run_lines sys gssapi_ext_h s =
       run_lines sys (Declaration gss_buffer_set_desc_struct # post) t"
    unfolding split run_guard_open [OF guard] by (simp only: run_lines_append r sum.case)
  have p: "pack_current t = Some 2 \<and> pack_stack t = pack_current s # pack_stack s"
    unfolding t_def using frame by simp
  from r whole p show ?thesis
    by (intro exI [of _ t] conjI) simp_all
qed

text \<open>
  The macOS build for x86-64 is such a target: the structure is declared under
  alignment 2, above the alignment 4 and the stack found at the start.
\<close>

theorem struct_declared_under_pack_2_witness:
  "\<exists>t. run_lines macos_sdk
       [Define_macro ''_GSSAPI_EXT_H_'' Body_empty,
        If_group (Conj (Defined ''__MACH__'') (Defined ''__APPLE__''))
          [Include_system ''TargetConditionals.h'',
           If_group (Macro_value ''TARGET_RT_MAC_CFM'')
             [Error_directive ''Use KfM 4.0 SDK headers for CFM compilation.'']],
        Ifdef_group ''__cplusplus'' [Declaration (Linkage_begin ''C'')],
        If_group
          (Conj (Macro_value ''TARGET_OS_MAC'')
             (Disj (Disj (Disj (Defined ''__ppc__'') (Defined ''__ppc64__''))
                (Defined ''__i386__'')) (Defined ''__x86_64__'')))
          [Pragma_pack_push 2]] macos_x86_64 = Inr t \<and>
     pack_current t = Some 2 \<and> pack_stack t = [Some 4, None]"
proof -
  let ?pre = "[Define_macro ''_GSSAPI_EXT_H_'' Body_empty,
        If_group (Conj (Defined ''__MACH__'') (Defined ''__APPLE__''))
          [Include_system ''TargetConditionals.h'',
           If_group (Macro_value ''TARGET_RT_MAC_CFM'')
             [Error_directive ''Use KfM 4.0 SDK headers for CFM compilation.'']],
        Ifdef_group ''__cplusplus'' [Declaration (Linkage_begin ''C'')],
        If_group
          (Conj (Macro_value ''TARGET_OS_MAC'')
             (Disj (Disj (Disj (Defined ''__ppc__'') (Defined ''__ppc64__''))
                (Defined ''__i386__'')) (Defined ''__x86_64__'')))
          [Pragma_pack_push 2]]"
  let ?post = "[Define_macro ''GSS_C_NO_BUFFER_SET'' (Body_cast ''gss_buffer_set_t'' 0),
      Declaration gss_release_buffer_set,
      Declaration gss_inquire_sec_context_by_oid,
      If_group
        (Conj (Macro_value ''TARGET_OS_MAC'')
           (Disj (Disj (Disj (Defined ''__ppc__'') (Defined ''__ppc64__''))
              (Defined ''__i386__'')) (Defined ''__x86_64__'')))
        [Pragma_pack_pop],
      Ifdef_group ''__cplusplus'' [Declaration Linkage_end]]"
  let ?m = "macos_sdk ''TargetConditionals.h''
     ((macros macos_x86_64)(''_GSSAPI_EXT_H_'' \<mapsto> Body_empty))"
  have split: "gssapi_ext_h =
       [Ifndef_group ''_GSSAPI_EXT_H_''
          (?pre @ Declaration gss_buffer_set_desc_struct # ?post)]"
    by (simp add: gssapi_ext_h_def)
  have guard: "macros macos_x86_64 ''_GSSAPI_EXT_H_'' = None"
    and mach: "macros macos_x86_64 ''__MACH__'' \<noteq> None"
    and apple: "macros macos_x86_64 ''__APPLE__'' \<noteq> None"
    by (simp_all add: macos_x86_64_def)
  have cfm: "eval_cond ?m (Macro_value ''TARGET_RT_MAC_CFM'') = Some 0"
    and mac: "eval_cond ?m (Macro_value ''TARGET_OS_MAC'') = Some 1"
    and arch: "?m ''__ppc__'' \<noteq> None \<or> ?m ''__ppc64__'' \<noteq> None \<or>
       ?m ''__i386__'' \<noteq> None \<or> ?m ''__x86_64__'' \<noteq> None"
    by (simp_all add: macos_sdk_def macos_x86_64_def)
  have nonzero: "(1::int) \<noteq> 0"
    by simp
  from struct_declared_under_pack_2 [where sys = macos_sdk and s = macos_x86_64
      and m = ?m and v = 1 and pre = ?pre and post = ?post,
      OF split guard mach apple refl cfm mac nonzero arch]
  obtain t where r: "run_lines macos_sdk ?pre macos_x86_64 = Inr t"
    and c: "pack_current t = Some 2"
    and k: "pack_stack t = pack_current macos_x86_64 # pack_stack macos_x86_64"
    by (elim exE conjE)
  from k have k': "pack_stack t = [Some 4, None]"
    by (simp add: macos_x86_64_def)
  from r c k' show ?thesis
    by (intro exI [of _ t] conjI)
qed

text \<open>
  C8. Both entry points are declared and not defined. An accepted first inclusion hands
  the compiler exactly two function declarations, named
  \<^verbatim>\<open>gss_release_buffer_set\<close> and \<^verbatim>\<open>gss_inquire_sec_context_by_oid\<close>, and no
  declaration it hands over has a body: each is a prototype. The header gives neither
  function any behaviour, and this theory gives them none either: they occur in it as
  declarations only.
\<close>

theorem entry_points_declared_not_defined:
  assumes "macros s ''_GSSAPI_EXT_H_'' = None"
    and "run_lines sys gssapi_ext_h s = Inr s'"
  shows "\<exists>new. emitted s' = emitted s @ new \<and>
     filter is_function new = [gss_release_buffer_set, gss_inquire_sec_context_by_oid] \<and>
     function_name gss_release_buffer_set = Some ''gss_release_buffer_set'' \<and>
     function_name gss_inquire_sec_context_by_oid = Some ''gss_inquire_sec_context_by_oid'' \<and>
     (\<forall>d \<in> set new. function_body d = None)"
proof -
  from header_declarations [OF assms] obtain new where
    e: "emitted s' = emitted s @ new" and
    f: "filter is_function new = [gss_release_buffer_set, gss_inquire_sec_context_by_oid]" and
    b: "\<forall>d \<in> set new. function_body d = None"
    by blast
  have n: "function_name gss_release_buffer_set = Some ''gss_release_buffer_set'' \<and>
     function_name gss_inquire_sec_context_by_oid = Some ''gss_inquire_sec_context_by_oid''"
    by (simp add: gss_release_buffer_set_def gss_inquire_sec_context_by_oid_def)
  from e f b n show ?thesis
    by (intro exI [of _ new] conjI) simp_all
qed

theorem entry_points_declared_not_defined_witness:
  "\<exists>s'. run_lines macos_sdk gssapi_ext_h linux_cplusplus = Inr s' \<and>
     filter is_function (emitted s') =
       [gss_release_buffer_set, gss_inquire_sec_context_by_oid] \<and>
     list_all (\<lambda>d. function_body d = None) (emitted s')"
proof -
  have g: "macros linux_cplusplus ''_GSSAPI_EXT_H_'' = None"
    by (simp add: linux_cplusplus_def)
  from linux_cplusplus_accepted obtain s' where
    r: "run_lines macos_sdk gssapi_ext_h linux_cplusplus = Inr s'"
    by blast
  from entry_points_declared_not_defined [OF g r] obtain new where
    e: "emitted s' = emitted linux_cplusplus @ new" and
    f: "filter is_function new = [gss_release_buffer_set, gss_inquire_sec_context_by_oid]" and
    b: "\<forall>d \<in> set new. function_body d = None"
    by (elim exE conjE)
  have e': "emitted s' = new"
    using e by (simp add: linux_cplusplus_def)
  from r f b show ?thesis
    by (intro exI [of _ s']) (simp add: e' list_all_iff)
qed

text \<open>
  C9. The header defines \<^verbatim>\<open>GSS_C_NO_BUFFER_SET\<close> as the null pointer of type
  \<^verbatim>\<open>gss_buffer_set_t\<close>. After an accepted first inclusion the macro's replacement is
  \<^verbatim>\<open>((gss_buffer_set_t) 0)\<close>, the integer constant 0 converted to
  \<^verbatim>\<open>gss_buffer_set_t\<close>, and the same inclusion declares \<^verbatim>\<open>gss_buffer_set_t\<close> as
  the pointer to \<^verbatim>\<open>struct gss_buffer_set_desc_struct\<close>: a pointer that points to no
  buffer set. It is the only macro to which the header gives a value; the one other
  \<^verbatim>\<open>#define\<close>, the include guard, has an empty replacement.
\<close>

theorem no_buffer_set_is_null_pointer:
  assumes "macros s ''_GSSAPI_EXT_H_'' = None"
    and "run_lines sys gssapi_ext_h s = Inr s'"
  shows "macros s' ''GSS_C_NO_BUFFER_SET'' = Some (Body_cast ''gss_buffer_set_t'' 0) \<and>
     (\<exists>d \<in> set (emitted s').
        (''gss_buffer_set_t'', Pointer (Struct ''gss_buffer_set_desc_struct''))
          \<in> set (typedef_names d)) \<and>
     filter (\<lambda>d. snd d \<noteq> Body_empty) (concat (map defines_in gssapi_ext_h)) =
       [(''GSS_C_NO_BUFFER_SET'', Body_cast ''gss_buffer_set_t'' 0)]"
proof -
  from header_effect [OF assms] have
    a: "macros s' ''GSS_C_NO_BUFFER_SET'' = Some (Body_cast ''gss_buffer_set_t'' 0)"
    by blast
  from header_declarations [OF assms] have m: "gss_buffer_set_desc_struct \<in> set (emitted s')"
    by auto
  have "(''gss_buffer_set_t'', Pointer (Struct ''gss_buffer_set_desc_struct''))
          \<in> set (typedef_names gss_buffer_set_desc_struct)"
    by (simp add: gss_buffer_set_desc_struct_def)
  with m have b: "\<exists>d \<in> set (emitted s').
        (''gss_buffer_set_t'', Pointer (Struct ''gss_buffer_set_desc_struct''))
          \<in> set (typedef_names d)"
    by blast
  have c: "filter (\<lambda>d. snd d \<noteq> Body_empty) (concat (map defines_in gssapi_ext_h)) =
       [(''GSS_C_NO_BUFFER_SET'', Body_cast ''gss_buffer_set_t'' 0)]"
    unfolding defines_in_header by simp
  from a b c show ?thesis
    by (intro conjI)
qed

theorem no_buffer_set_is_null_pointer_witness:
  "\<exists>s'. run_lines macos_sdk gssapi_ext_h macos_x86_64 = Inr s' \<and>
     macros s' ''GSS_C_NO_BUFFER_SET'' = Some (Body_cast ''gss_buffer_set_t'' 0)"
proof -
  have g: "macros macos_x86_64 ''_GSSAPI_EXT_H_'' = None"
    by (simp add: macos_x86_64_def)
  from macos_x86_64_accepted obtain s' where
    r: "run_lines macos_sdk gssapi_ext_h macos_x86_64 = Inr s'"
    by blast
  from no_buffer_set_is_null_pointer [OF g r] r show ?thesis
    by blast
qed

end
